theory Spec2Isabelle
  imports Main "HOL-Library.AList"
begin

section \<open>Strings of the Go standard library\<close>

text \<open>
  A Go string is a sequence of bytes, so it is a \<^typ>\<open>string\<close> here. The functions of
  package \<open>strings\<close> and \<open>x/text\<close> the repository calls are library code; they are
  written out for ASCII text (every byte below 128), where they are exact. A byte of
  128 or more passes through \<open>ToLower\<close> and the normalisation chain unchanged: the
  Unicode tables that decide there are not part of the repository, and every theorem
  that depends on them is stated for ASCII strings.
\<close>

definition is_ascii :: "string \<Rightarrow> bool" where
  "is_ascii s = list_all (\<lambda>c. of_char c < (128::nat)) s"

text \<open>\<open>strings.HasPrefix(s, p)\<close>.\<close>

fun HasPrefix :: "string \<Rightarrow> string \<Rightarrow> bool" where
  "HasPrefix s [] = True"
| "HasPrefix [] (p # ps) = False"
| "HasPrefix (c # cs) (p # ps) = (c = p \<and> HasPrefix cs ps)"

text \<open>
  \<open>strings.Index(s, substr)\<close>: the index of the first instance of \<open>substr\<close> in \<open>s\<close>,
  or \<open>-1\<close>. \<open>IndexFrom i\<close> is the scan that has already passed \<open>i\<close> bytes.
\<close>

fun IndexFrom :: "int \<Rightarrow> string \<Rightarrow> string \<Rightarrow> int" where
  "IndexFrom i [] substr = (if substr = [] then i else - 1)"
| "IndexFrom i (c # cs) substr =
     (if HasPrefix (c # cs) substr then i else IndexFrom (i + 1) cs substr)"

definition Index :: "string \<Rightarrow> string \<Rightarrow> int" where
  "Index s substr = IndexFrom 0 s substr"

text \<open>\<open>strings.ToLower\<close> on one byte: \<open>A\<close>..\<open>Z\<close> become \<open>a\<close>..\<open>z\<close>.\<close>

definition lower_char :: "char \<Rightarrow> char" where
  "lower_char c =
     (case map_of (zip ''ABCDEFGHIJKLMNOPQRSTUVWXYZ'' ''abcdefghijklmnopqrstuvwxyz'') c of
        None \<Rightarrow> c
      | Some d \<Rightarrow> d)"

definition ToLower :: "string \<Rightarrow> string" where
  "ToLower s = map lower_char s"

text \<open>
  \<open>strings.TrimSpace\<close>: leading and trailing white space removed. The ASCII white
  space of Go is tab, line feed, vertical tab, form feed, carriage return and space.
\<close>

definition is_space :: "char \<Rightarrow> bool" where
  "is_space c = ((of_char c :: nat) \<in> {9, 10, 11, 12, 13, 32})"

definition TrimSpace :: "string \<Rightarrow> string" where
  "TrimSpace s = rev (dropWhile is_space (rev (dropWhile is_space s)))"

text \<open>
  \<open>strings.Replace(s, old, new, -1)\<close> for a one-byte \<open>old\<close>, as the repository uses
  it: every instance of the byte is replaced by the string \<open>new\<close>.
\<close>

definition Replace :: "string \<Rightarrow> char \<Rightarrow> string \<Rightarrow> string" where
  "Replace s old new = concat (map (\<lambda>c. if c = old then new else [c]) s)"

text \<open>
  \<open>transform.Chain(norm.NFD, transform.RemoveFunc(isMn), norm.NFC)\<close>: canonical
  decomposition, removal of the non-spacing marks, recomposition. ASCII text has no
  decomposition and no mark, so the chain returns it as it is.
\<close>

definition removeMn :: "string \<Rightarrow> string" where
  "removeMn s = s"

section \<open>The slug normaliser and the region check\<close>

text \<open>\<open>RealmSlug\<close> (the same in all three versions of the package).\<close>

definition RealmSlug :: "string \<Rightarrow> string" where
  "RealmSlug realm =
     (let rs = ToLower realm;
          rs = Replace rs CHR ''-'' [];
          rs = Replace rs (CHR 0x27) [];
          rs = Replace rs CHR '' '' ''-''
      in removeMn rs)"

text \<open>
  \<open>IsValidRegion\<close> (the same in all three versions): the position of \<open>region\<close> in
  the string \<open>useu\<close> is 0 or 2.
\<close>

definition IsValidRegion :: "string \<Rightarrow> bool" where
  "IsValidRegion region = (let i = Index ''useu'' region in i = 0 \<or> i = 2)"

section \<open>Errors, documents and the transport\<close>

text \<open>
  The errors the package returns. \<open>Transport\<close> is any error of \<open>HTTP.Get\<close>, named by
  a text; \<open>SyntaxError\<close> is the error of \<open>json.Unmarshal\<close>; \<open>AtoiSyntax\<close> and
  \<open>AtoiRange\<close> are the two errors of \<open>strconv.Atoi\<close>; the others are the messages of
  \<open>fmt.Errorf\<close> and \<open>errors.New\<close> in the source.
\<close>

datatype error =
    Transport string
  | SyntaxError
  | AtoiSyntax
  | AtoiRange
  | InvalidRegion
  | InvalidRealmSlug
  | RealmNotFound
  | NotCompletelyScraped
  | BlankRealmResponse
  | NoConnectedRealmInHref

text \<open>
  A call either returns its pair of value and error, or panics (a nil dereference, an
  index out of range), or blocks for ever (a receive on an open, empty channel; a lock
  that is never released).
\<close>

datatype 'a outcome = Returns 'a | Panics | Deadlocks

text \<open>An element \<open>{ID, Slug}\<close> of a realm list.\<close>

record realm_entry =
  ID :: int
  Slug :: string

text \<open>
  A JSON document, as far as the package reads it: the value of each key one of the
  response structs names. \<open>json.Unmarshal\<close> leaves a field whose key is absent at its
  zero value, so a document gives every key a value and decoding into a struct reads
  the keys the struct has. \<open>Malformed\<close> is a body \<open>json.Unmarshal\<close> rejects.
\<close>

record doc =
  realms :: "realm_entry list"
  connected_realms :: "string list"
  connected_realm :: string
  page_size :: int
  results :: "realm_entry list"

definition empty_doc :: doc where
  "empty_doc = \<lparr>realms = [], connected_realms = [], connected_realm = [],
                 page_size = 0, results = []\<rparr>"

datatype body = Malformed | Document doc

definition Unmarshal :: "body \<Rightarrow> error + doc" where
  "Unmarshal b = (case b of Malformed \<Rightarrow> Inl SyntaxError | Document d \<Rightarrow> Inr d)"

text \<open>
  The interface \<open>HTTP\<close>: \<open>Get region endpoint\<close> returns a body or an error (the header
  is never read). The remote responses are taken as a function of the request. \<open>Get\<close>
  below is the call as the package makes it: it also appends the endpoint to the list
  of the requests made so far.
\<close>

type_synonym HTTP = "string \<Rightarrow> string \<Rightarrow> error + body"

definition Get :: "HTTP \<Rightarrow> string \<Rightarrow> string \<Rightarrow> string list \<Rightarrow> (error + body) \<times> string list" where
  "Get h region endpoint calls = (h region endpoint, calls @ [endpoint])"

subsection \<open>Numbers in URLs\<close>

definition is_digit :: "char \<Rightarrow> bool" where
  "is_digit c = (48 \<le> (of_char c :: nat) \<and> (of_char c :: nat) \<le> 57)"

definition digit_val :: "char \<Rightarrow> nat" where
  "digit_val c = of_char c - 48"

text \<open>
  \<open>strconv.Atoi\<close>: an optional sign, then decimal digits; a syntax error on anything
  else, a range error outside the 64-bit \<open>int\<close>.
\<close>

definition Atoi :: "string \<Rightarrow> error + int" where
  "Atoi s =
     (let neg = (s \<noteq> [] \<and> hd s = CHR ''-'');
          ds = (if s \<noteq> [] \<and> (hd s = CHR ''-'' \<or> hd s = CHR ''+'') then tl s else s)
      in if ds = [] \<or> \<not> list_all is_digit ds then Inl AtoiSyntax
         else let n = int (foldl (\<lambda>a c. 10 * a + digit_val c) 0 ds);
                  v = (if neg then - n else n)
              in if v < - (2 ^ 63) \<or> 2 ^ 63 - 1 < v then Inl AtoiRange else Inr v)"

text \<open>The verb \<open>%d\<close> of \<open>fmt.Sprintf\<close>.\<close>

definition digit_char :: "nat \<Rightarrow> char" where
  "digit_char d = ''0123456789'' ! d"

fun nat_digits :: "nat \<Rightarrow> string" where
  "nat_digits n =
     (if n < 10 then [digit_char n] else nat_digits (n div 10) @ [digit_char (n mod 10)])"

definition Itoa :: "int \<Rightarrow> string" where
  "Itoa i = (if i < 0 then CHR ''-'' # nat_digits (nat (- i)) else nat_digits (nat i))"

text \<open>
  \<open>regex.FindStringSubmatch(href)\<close> for the one expression of the package,
  \<open>connected-realm/([0-9]+)\?\<close>: the leftmost place where the marker is followed by
  one digit or more and a question mark. The result is the group \<open>matches[1]\<close>, or
  \<open>None\<close> for \<open>matches == nil\<close>.
\<close>

fun FindStringSubmatch :: "string \<Rightarrow> string option" where
  "FindStringSubmatch [] = None"
| "FindStringSubmatch (c # cs) =
     (if HasPrefix (c # cs) ''connected-realm/''
      then (let rest = drop 16 (c # cs); ds = takeWhile is_digit rest
            in if ds \<noteq> [] \<and> HasPrefix (drop (length ds) rest) ''?'' then Some ds
               else FindStringSubmatch cs)
      else FindStringSubmatch cs)"

subsection \<open>The endpoints\<close>

definition realm_index_endpoint :: "string \<Rightarrow> string" where
  "realm_index_endpoint region =
     ''data/wow/realm/index?locale=en_US&namespace=dynamic-'' @ region"

definition connected_realm_index_endpoint :: "string \<Rightarrow> string" where
  "connected_realm_index_endpoint region =
     ''data/wow/connected-realm/index?locale=en_US&namespace=dynamic-'' @ region"

definition search_endpoint :: "string \<Rightarrow> string \<Rightarrow> string" where
  "search_endpoint region r =
     ''data/wow/search/connected-realm?namespace=dynamic-'' @ region
       @ ''&locale=en_US&realms.slug='' @ r"

definition realm_endpoint :: "string \<Rightarrow> string \<Rightarrow> string" where
  "realm_endpoint sanitized region =
     ''data/wow/realm/'' @ sanitized @ ''?namespace=dynamic-'' @ region @ ''&locale=en_US''"

definition connected_realm_endpoint :: "int \<Rightarrow> string \<Rightarrow> string" where
  "connected_realm_endpoint connRealmId region =
     ''/data/wow/connected-realm/'' @ Itoa connRealmId @ ''?namespace=dynamic-'' @ region
       @ ''&locale=en_US''"

section \<open>The two index fetches\<close>

text \<open>
  All three versions of \<open>GetRealmList\<close> start the same way: the realm index is fetched
  and decoded, then the connected-realm index. The result is the list \<open>rlr.Realms\<close>
  and the hrefs of \<open>crr.ConnectedRealms\<close>; an error of either fetch or decode is
  returned at once.
\<close>

definition fetch_indexes ::
  "HTTP \<Rightarrow> string \<Rightarrow> string list \<Rightarrow> (error + realm_entry list \<times> string list) \<times> string list" where
  "fetch_indexes h region calls =
     (case Get h region (realm_index_endpoint region) calls of
        (Inl err, calls1) \<Rightarrow> (Inl err, calls1)
      | (Inr resp, calls1) \<Rightarrow>
          (case Unmarshal resp of
             Inl err \<Rightarrow> (Inl err, calls1)
           | Inr rlr \<Rightarrow>
               (case Get h region (connected_realm_index_endpoint region) calls1 of
                  (Inl err, calls2) \<Rightarrow> (Inl err, calls2)
                | (Inr resp2, calls2) \<Rightarrow>
                    (case Unmarshal resp2 of
                       Inl err \<Rightarrow> (Inl err, calls2)
                     | Inr crr \<Rightarrow> (Inr (realms rlr, connected_realms crr), calls2)))))"

text \<open>
  The loop over \<open>crr.ConnectedRealms\<close>: an href the expression does not match is
  passed over; one it matches gives its number, in the order of the index, and an
  error of \<open>Atoi\<close> ends the build. Two versions collect the numbers in the set
  \<open>crLookup\<close>, the third sends them on the channel \<open>crCh\<close>.
\<close>

fun extract_ids :: "string list \<Rightarrow> error + int list" where
  "extract_ids [] = Inr []"
| "extract_ids (href # rest) =
     (case FindStringSubmatch href of
        None \<Rightarrow> extract_ids rest
      | Some ds \<Rightarrow>
          (case Atoi ds of
             Inl err \<Rightarrow> Inl err
           | Inr i \<Rightarrow> (case extract_ids rest of Inl err \<Rightarrow> Inl err | Inr ids \<Rightarrow> Inr (i # ids))))"

section \<open>The version with lazy loading (\<open>pkg/bnet/bnet.go\<close>)\<close>

text \<open>
  \<open>Realms\<close> of \<open>bnet.go\<close> and of the concurrent lazy version: both collections map a
  realm slug to a number.
\<close>

record Realms =
  Region :: string
  ConnectedRealms :: "string \<rightharpoonup> int"
  AllRealms :: "string \<rightharpoonup> int"

definition IsValidRealm :: "(string \<rightharpoonup> int) \<Rightarrow> string \<Rightarrow> bool" where
  "IsValidRealm rc realmSlug = (rc realmSlug \<noteq> None)"

text \<open>
  The loop over \<open>rlr.Realms\<close> of \<open>bnet.go\<close>: every realm enters \<open>ar\<close>; a realm whose
  ID is in \<open>crLookup\<close> enters \<open>m\<close> under its own ID. The state is the pair \<open>(ar, m)\<close>.
\<close>

definition index_step_bnet ::
  "int set \<Rightarrow> (string \<rightharpoonup> int) \<times> (string \<rightharpoonup> int) \<Rightarrow> realm_entry \<Rightarrow>
   (string \<rightharpoonup> int) \<times> (string \<rightharpoonup> int)" where
  "index_step_bnet crLookup st r =
     (case st of (ar, m) \<Rightarrow>
        (ar(Slug r \<mapsto> ID r), if ID r \<in> crLookup then m(Slug r \<mapsto> ID r) else m))"

text \<open>\<open>GetRealmList\<close> of \<open>bnet.go\<close>. The struct it returns leaves \<open>Region\<close> empty.\<close>

definition GetRealmList_bnet ::
  "HTTP \<Rightarrow> string \<Rightarrow> string list \<Rightarrow> (error + Realms) \<times> string list" where
  "GetRealmList_bnet h region calls =
     (case fetch_indexes h region calls of
        (Inl err, calls') \<Rightarrow> (Inl err, calls')
      | (Inr (rlr, crr), calls') \<Rightarrow>
          (case extract_ids crr of
             Inl err \<Rightarrow> (Inl err, calls')
           | Inr ids \<Rightarrow>
               (case foldl (index_step_bnet (set ids)) (Map.empty, Map.empty) rlr of
                  (ar, m) \<Rightarrow>
                    (Inr \<lparr>Region = [], ConnectedRealms = m, AllRealms = ar\<rparr>, calls'))))"

text \<open>
  The search loop of \<open>ConnectedRealmID\<close>: the index of the first result whose slug is
  the argument, 0 when there is none. \<open>j\<close> is the index of the head of the list.
\<close>

fun search_index :: "string \<Rightarrow> nat \<Rightarrow> realm_entry list \<Rightarrow> nat" where
  "search_index realmSlug j [] = 0"
| "search_index realmSlug j (r # rs) =
     (if Slug r = realmSlug then j else search_index realmSlug (Suc j) rs)"

text \<open>
  The end of \<open>ConnectedRealmID\<close>: \<open>id := sr.Results[i].Data.ID\<close>, which panics when
  the index is out of range, then the write \<open>c[realmSlug] = id\<close>.
\<close>

definition cache_result ::
  "string \<Rightarrow> realm_entry list \<Rightarrow> nat \<Rightarrow> (string \<rightharpoonup> int) \<times> string list \<Rightarrow>
   (error + int) outcome \<times> (string \<rightharpoonup> int) \<times> string list" where
  "cache_result realmSlug res i st =
     (case st of (c, calls) \<Rightarrow>
        if i < length res
        then (Returns (Inr (ID (res ! i))), c(realmSlug \<mapsto> ID (res ! i)), calls)
        else (Panics, c, calls))"

text \<open>
  \<open>ConnectedRealmID\<close> of \<open>bnet.go\<close>. The state is the collection \<open>c\<close> (a Go map, shared
  with the caller) and the requests made. The lookup uses the sanitized slug \<open>r\<close>; the
  write after a search uses the argument \<open>realmSlug\<close>.
\<close>

definition ConnectedRealmID_bnet ::
  "HTTP \<Rightarrow> string \<Rightarrow> string \<Rightarrow> (string \<rightharpoonup> int) \<times> string list \<Rightarrow>
   (error + int) outcome \<times> (string \<rightharpoonup> int) \<times> string list" where
  "ConnectedRealmID_bnet h realmSlug region st =
     (case st of (c, calls) \<Rightarrow>
        if \<not> IsValidRegion region then (Returns (Inl InvalidRegion), c, calls)
        else
          let r = ToLower (TrimSpace realmSlug) in
          (case c r of
             Some i \<Rightarrow> (Returns (Inr i), c, calls)
           | None \<Rightarrow>
               (case Get h region (search_endpoint region r) calls of
                  (Inl err, calls') \<Rightarrow> (Returns (Inl err), c, calls')
                | (Inr resp, calls') \<Rightarrow>
                    (case Unmarshal resp of
                       Inl err \<Rightarrow> (Returns (Inl err), c, calls')
                     | Inr sr \<Rightarrow>
                         if page_size sr > 1
                         then cache_result realmSlug (results sr)
                                (search_index realmSlug 0 (results sr)) (c, calls')
                         else if page_size sr = 0
                         then (Returns (Inl InvalidRealmSlug), c, calls')
                         else cache_result realmSlug (results sr) 0 (c, calls')))))"

section \<open>The eager version (scatter and gather over the clusters)\<close>

text \<open>
  \<open>Realms\<close> of the eager version: \<open>ConnectedRealms\<close> maps a connected realm ID to the
  slugs of its realms, and \<open>crRealm\<close> maps a slug to its connected realm ID.
\<close>

record Realms_eager =
  Region_eager :: string
  ConnectedRealms_eager :: "int \<rightharpoonup> string list"
  AllRealms_eager :: "string \<rightharpoonup> int"
  crRealm_eager :: "string \<rightharpoonup> int"

text \<open>
  The loop of \<open>scrapeConnRealm\<close> over the realms of one response: a realm with ID 0 or
  an empty slug ends it with an error (the collection keeps what the loop has already
  appended); any other realm is appended to \<open>realms\<close> and to \<open>c[connRealmId]\<close>.
\<close>

fun scrape_loop ::
  "int \<Rightarrow> realm_entry list \<Rightarrow> string list \<Rightarrow> (int \<rightharpoonup> string list) \<Rightarrow>
   (error + string list) \<times> (int \<rightharpoonup> string list)" where
  "scrape_loop connRealmId [] acc c = (Inr acc, c)"
| "scrape_loop connRealmId (r # rs) acc c =
     (if ID r = 0 \<or> Slug r = [] then (Inl BlankRealmResponse, c)
      else scrape_loop connRealmId rs (acc @ [Slug r])
             (c(connRealmId \<mapsto>
                  (case c connRealmId of Some l \<Rightarrow> l @ [Slug r] | None \<Rightarrow> [Slug r]))))"

text \<open>
  \<open>scrapeConnRealm\<close>: one request for the members of one cluster. The lock is taken
  once around the loop and released on both ways out, so in the order of one
  goroutine it has no effect on the result.
\<close>

definition scrapeConnRealm ::
  "HTTP \<Rightarrow> string \<Rightarrow> int \<Rightarrow> (int \<rightharpoonup> string list) \<times> string list \<Rightarrow>
   (error + string list) \<times> (int \<rightharpoonup> string list) \<times> string list" where
  "scrapeConnRealm h region connRealmId st =
     (case st of (c, calls) \<Rightarrow>
        (case Get h region (connected_realm_endpoint connRealmId region) calls of
           (Inl err, calls') \<Rightarrow> (Inl err, c, calls')
         | (Inr resp, calls') \<Rightarrow>
             (case Unmarshal resp of
                Inl err \<Rightarrow> (Inl err, c, calls')
              | Inr crr \<Rightarrow>
                  (case scrape_loop connRealmId (realms crr) [] c of
                     (res, c') \<Rightarrow> (res, c', calls')))))"

text \<open>
  The state the goroutines of the build share: what is left on the closed channel
  \<open>crCh\<close>, the three maps, the first error the group has kept, and the requests
  made. \<open>crcCheck\<close> is the one map whose length the build reads, so it is an
  association list (with \<open>AList.update\<close> and \<open>AList.delete\<close>, which keep one entry for
  each key).
\<close>

record build =
  crCh :: "int list"
  crc :: "int \<rightharpoonup> string list"
  crcCheck :: "(string \<times> int) list"
  crRealm :: "string \<rightharpoonup> int"
  firstErr :: "error option"
  requests :: "string list"

text \<open>A read \<open>crcCheck[k]\<close>: the zero value for a missing key.\<close>

definition count_of :: "(string \<times> int) list \<Rightarrow> string \<Rightarrow> int" where
  "count_of m k = (case map_of m k of None \<Rightarrow> 0 | Some n \<Rightarrow> n)"

text \<open>The loop of a worker over the slugs of one cluster: \<open>crcCheck[r]++\<close> and
  \<open>crRealm[r] = c\<close>.\<close>

definition merge_step ::
  "int \<Rightarrow> (string \<times> int) list \<times> (string \<rightharpoonup> int) \<Rightarrow> string \<Rightarrow>
   (string \<times> int) list \<times> (string \<rightharpoonup> int)" where
  "merge_step c st r =
     (case st of (chk, cr) \<Rightarrow> (AList.update r (count_of chk r + 1) chk, cr(r \<mapsto> c)))"

text \<open>
  One of the goroutines started with \<open>eg.Go\<close>. Its \<open>for crID := range crCh\<close> returns
  inside the first iteration, so a goroutine takes one number from the channel, or
  none when the channel is empty. The group keeps the first error returned.
\<close>

definition worker :: "HTTP \<Rightarrow> string \<Rightarrow> build \<Rightarrow> build" where
  "worker h region b =
     (case crCh b of
        [] \<Rightarrow> b
      | crID # rest \<Rightarrow>
          (case scrapeConnRealm h region crID (crc b, requests b) of
             (Inl e, c', calls') \<Rightarrow>
               b\<lparr>crCh := rest, crc := c', requests := calls',
                  firstErr := (case firstErr b of None \<Rightarrow> Some e | Some e0 \<Rightarrow> Some e0)\<rparr>
           | (Inr rs, c', calls') \<Rightarrow>
               (case foldl (merge_step crID) (crcCheck b, crRealm b) rs of
                  (chk, cr) \<Rightarrow>
                    b\<lparr>crCh := rest, crc := c', requests := calls', crcCheck := chk,
                       crRealm := cr\<rparr>)))"

definition threads :: nat where
  "threads = 5"

text \<open>
  The loop over \<open>rlr.Realms\<close> after \<open>eg.Wait\<close>: the realm enters \<open>ar\<close>, its counter
  goes down by one, and a counter that has reached zero is deleted.
\<close>

definition check_step ::
  "(string \<rightharpoonup> int) \<times> (string \<times> int) list \<Rightarrow> realm_entry \<Rightarrow>
   (string \<rightharpoonup> int) \<times> (string \<times> int) list" where
  "check_step st r =
     (case st of (ar, chk) \<Rightarrow>
        (let chk' = AList.update (Slug r) (count_of chk (Slug r) - 1) chk
         in (ar(Slug r \<mapsto> ID r),
             if count_of chk' (Slug r) = 0 then AList.delete (Slug r) chk' else chk')))"

text \<open>
  \<open>GetRealmList\<close> of the eager version. The five goroutines run one after the other
  here, in the order in which they were started; any other schedule gives each of
  them one of the same numbers, the first \<open>threads\<close> of the channel.
\<close>

definition GetRealmList_eager ::
  "HTTP \<Rightarrow> string \<Rightarrow> string list \<Rightarrow> (error + Realms_eager) \<times> string list" where
  "GetRealmList_eager h region calls0 =
     (case fetch_indexes h region calls0 of
        (Inl e, calls1) \<Rightarrow> (Inl e, calls1)
      | (Inr (rlr, crr), calls1) \<Rightarrow>
          (case extract_ids crr of
             Inl e \<Rightarrow> (Inl e, calls1)
           | Inr ids \<Rightarrow>
               (let b = (worker h region ^^ threads)
                          \<lparr>crCh = ids, crc = Map.empty, crcCheck = [], crRealm = Map.empty,
                           firstErr = None, requests = calls1\<rparr>
                in case firstErr b of
                     Some e \<Rightarrow> (Inl e, requests b)
                   | None \<Rightarrow>
                       (case foldl check_step (Map.empty, crcCheck b) rlr of
                          (ar, chk) \<Rightarrow>
                            if length chk > 0 then (Inl NotCompletelyScraped, requests b)
                            else (Inr \<lparr>Region_eager = region, ConnectedRealms_eager = crc b,
                                       AllRealms_eager = ar, crRealm_eager = crRealm b\<rparr>,
                                  requests b)))))"

subsection \<open>What the workers return\<close>





text \<open>\<open>ConnectedRealmID\<close> of the eager version: a lookup in \<open>crRealm\<close>, no request.\<close>

definition ConnectedRealmID_eager :: "Realms_eager \<Rightarrow> string \<Rightarrow> error + int" where
  "ConnectedRealmID_eager r realmSlug =
     (case crRealm_eager r realmSlug of None \<Rightarrow> Inl RealmNotFound | Some i \<Rightarrow> Inr i)"

section \<open>The concurrent lazy version (one request for each realm outside the index)\<close>

text \<open>
  \<open>sync.RWMutex\<close>, as one goroutine sees it: the number of read locks held and
  whether the write lock is held. \<open>realmScanner\<close> holds a pointer to one; \<open>None\<close> is
  the nil pointer, for the field \<open>lock\<close> and for a \<open>*realmScanner\<close> alike.
\<close>

record rwmutex =
  readers :: nat
  writer :: bool

record realmScanner =
  lock :: "rwmutex option"

text \<open>
  The four operations on \<open>r.lock\<close>. Reading the field through a nil \<open>r\<close> panics, and
  so does a method of a nil \<open>*sync.RWMutex\<close>. A lock that cannot be granted blocks:
  nothing in the one goroutine that waits can release it.
\<close>

definition RLock :: "realmScanner option \<Rightarrow> realmScanner option outcome" where
  "RLock r =
     (case r of
        None \<Rightarrow> Panics
      | Some s \<Rightarrow>
          (case lock s of
             None \<Rightarrow> Panics
           | Some mu \<Rightarrow>
               if writer mu then Deadlocks
               else Returns (Some (s\<lparr>lock := Some (mu\<lparr>readers := readers mu + 1\<rparr>)\<rparr>))))"

definition RUnlock :: "realmScanner option \<Rightarrow> realmScanner option outcome" where
  "RUnlock r =
     (case r of
        None \<Rightarrow> Panics
      | Some s \<Rightarrow>
          (case lock s of
             None \<Rightarrow> Panics
           | Some mu \<Rightarrow>
               if readers mu = 0 then Panics
               else Returns (Some (s\<lparr>lock := Some (mu\<lparr>readers := readers mu - 1\<rparr>)\<rparr>))))"

definition Lock :: "realmScanner option \<Rightarrow> realmScanner option outcome" where
  "Lock r =
     (case r of
        None \<Rightarrow> Panics
      | Some s \<Rightarrow>
          (case lock s of
             None \<Rightarrow> Panics
           | Some mu \<Rightarrow>
               if writer mu \<or> readers mu > 0 then Deadlocks
               else Returns (Some (s\<lparr>lock := Some (mu\<lparr>writer := True\<rparr>)\<rparr>))))"

definition Unlock :: "realmScanner option \<Rightarrow> realmScanner option outcome" where
  "Unlock r =
     (case r of
        None \<Rightarrow> Panics
      | Some s \<Rightarrow>
          (case lock s of
             None \<Rightarrow> Panics
           | Some mu \<Rightarrow>
               if \<not> writer mu then Panics
               else Returns (Some (s\<lparr>lock := Some (mu\<lparr>writer := False\<rparr>)\<rparr>))))"

text \<open>
  The part of \<open>connRealmID\<close> after the response is decoded: the number is taken from
  the href, the write lock is taken, \<open>c[realmSlug] = id\<close> is written, the lock is
  released.
\<close>

definition store_href ::
  "string \<Rightarrow> string \<Rightarrow> realmScanner option \<times> (string \<rightharpoonup> int) \<times> string list \<Rightarrow>
   (error + int) outcome \<times> realmScanner option \<times> (string \<rightharpoonup> int) \<times> string list" where
  "store_href realmSlug href st =
     (case st of (r, c, calls) \<Rightarrow>
        (case FindStringSubmatch href of
           None \<Rightarrow> (Returns (Inl NoConnectedRealmInHref), r, c, calls)
         | Some ds \<Rightarrow>
             (case Atoi ds of
                Inl e \<Rightarrow> (Returns (Inl e), r, c, calls)
              | Inr i \<Rightarrow>
                  (case Lock r of
                     Panics \<Rightarrow> (Panics, r, c, calls)
                   | Deadlocks \<Rightarrow> (Deadlocks, r, c, calls)
                   | Returns r1 \<Rightarrow>
                       (case Unlock r1 of
                          Panics \<Rightarrow> (Panics, r1, c(realmSlug \<mapsto> i), calls)
                        | Deadlocks \<Rightarrow> (Deadlocks, r1, c(realmSlug \<mapsto> i), calls)
                        | Returns r2 \<Rightarrow> (Returns (Inr i), r2, c(realmSlug \<mapsto> i), calls))))))"

text \<open>
  \<open>connRealmID\<close>. The region is checked first. The lookup is made under the read
  lock, with the sanitized slug; the return on a hit leaves the read lock held. After
  a miss the realm is requested and the result stored under the argument
  \<open>realmSlug\<close>.
\<close>

definition connRealmID ::
  "HTTP \<Rightarrow> string \<Rightarrow> string \<Rightarrow> realmScanner option \<times> (string \<rightharpoonup> int) \<times> string list \<Rightarrow>
   (error + int) outcome \<times> realmScanner option \<times> (string \<rightharpoonup> int) \<times> string list" where
  "connRealmID h realmSlug region st =
     (case st of (r, c, calls) \<Rightarrow>
        if \<not> IsValidRegion region then (Returns (Inl InvalidRegion), r, c, calls)
        else
          let sanitized = ToLower (TrimSpace realmSlug) in
          (case RLock r of
             Panics \<Rightarrow> (Panics, r, c, calls)
           | Deadlocks \<Rightarrow> (Deadlocks, r, c, calls)
           | Returns r1 \<Rightarrow>
               (case c sanitized of
                  Some i \<Rightarrow> (Returns (Inr i), r1, c, calls)
                | None \<Rightarrow>
                    (case RUnlock r1 of
                       Panics \<Rightarrow> (Panics, r1, c, calls)
                     | Deadlocks \<Rightarrow> (Deadlocks, r1, c, calls)
                     | Returns r2 \<Rightarrow>
                         (case Get h region (realm_endpoint sanitized region) calls of
                            (Inl e, calls') \<Rightarrow> (Returns (Inl e), r2, c, calls')
                          | (Inr resp, calls') \<Rightarrow>
                              (case Unmarshal resp of
                                 Inl e \<Rightarrow> (Returns (Inl e), r2, c, calls')
                               | Inr rr \<Rightarrow>
                                   store_href realmSlug (connected_realm rr)
                                     (r2, c, calls')))))))"

text \<open>The package variable \<open>var r *realmScanner\<close>: never assigned, so nil.\<close>

definition r_scanner :: "realmScanner option" where
  "r_scanner = None"

text \<open>The exported \<open>ConnectedRealmID\<close> of this version calls \<open>r.connRealmID\<close>.\<close>

definition ConnectedRealmID_lazy ::
  "HTTP \<Rightarrow> string \<Rightarrow> string \<Rightarrow> (string \<rightharpoonup> int) \<times> string list \<Rightarrow>
   (error + int) outcome \<times> (string \<rightharpoonup> int) \<times> string list" where
  "ConnectedRealmID_lazy h realmSlug region st =
     (case st of (c, calls) \<Rightarrow>
        (case connRealmID h realmSlug region (r_scanner, c, calls) of
           (res, r', c', calls') \<Rightarrow> (res, c', calls')))"

text \<open>
  The loop over \<open>rlr.Realms\<close>: every realm enters \<open>ar\<close>; a realm whose ID is in
  \<open>crLookup\<close> enters \<open>m\<close>, any other is sent on the channel \<open>ch\<close>, whose buffer has
  room for all of them.
\<close>

definition index_step_lazy ::
  "int set \<Rightarrow> (string \<rightharpoonup> int) \<times> (string \<rightharpoonup> int) \<times> string list \<Rightarrow> realm_entry \<Rightarrow>
   (string \<rightharpoonup> int) \<times> (string \<rightharpoonup> int) \<times> string list" where
  "index_step_lazy crLookup st r =
     (case st of (ar, m, ch) \<Rightarrow>
        if ID r \<in> crLookup then (ar(Slug r \<mapsto> ID r), m(Slug r \<mapsto> ID r), ch)
        else (ar(Slug r \<mapsto> ID r), m, ch @ [Slug r]))"

text \<open>
  The loop \<open>for slug := range ch\<close>. It ends when the channel is closed and empty; on
  an open, empty channel the receive blocks. For each slug received a goroutine is
  started, which runs \<open>connRealmID\<close>; it runs here as soon as it is started. A panic
  in a goroutine ends the process. The state is the scanner, the collection \<open>m\<close>, the
  requests made and the first error the group has kept.
\<close>

fun dispatch ::
  "HTTP \<Rightarrow> string \<Rightarrow> bool \<Rightarrow> string list \<Rightarrow>
   realmScanner option \<times> (string \<rightharpoonup> int) \<times> string list \<times> error option \<Rightarrow>
   unit outcome \<times> realmScanner option \<times> (string \<rightharpoonup> int) \<times> string list \<times> error option" where
  "dispatch h region closed [] st = (if closed then Returns () else Deadlocks, st)"
| "dispatch h region closed (slug # ch) (rs, m, calls, eg) =
     (case connRealmID h slug region (rs, m, calls) of
        (Panics, rs', m', calls') \<Rightarrow> (Panics, rs', m', calls', eg)
      | (Deadlocks, rs', m', calls') \<Rightarrow> (Deadlocks, rs', m', calls', eg)
      | (Returns (Inl e), rs', m', calls') \<Rightarrow>
          dispatch h region closed ch
            (rs', m', calls', (case eg of None \<Rightarrow> Some e | Some e0 \<Rightarrow> Some e0))
      | (Returns (Inr _), rs', m', calls') \<Rightarrow>
          dispatch h region closed ch (rs', m', calls', eg))"

text \<open>
  \<open>GetRealmList\<close> of this version. The scanner is \<open>&realmScanner{}\<close>, whose lock is
  nil, and the channel is never closed. The result comes with the requests made.
\<close>

definition GetRealmList_lazy ::
  "HTTP \<Rightarrow> string \<Rightarrow> string list \<Rightarrow> (error + Realms) outcome \<times> string list" where
  "GetRealmList_lazy h region calls0 =
     (case fetch_indexes h region calls0 of
        (Inl e, calls1) \<Rightarrow> (Returns (Inl e), calls1)
      | (Inr (rlr, crr), calls1) \<Rightarrow>
          (case extract_ids crr of
             Inl e \<Rightarrow> (Returns (Inl e), calls1)
           | Inr ids \<Rightarrow>
               (case foldl (index_step_lazy (set ids)) (Map.empty, Map.empty, []) rlr of
                  (ar, m, ch) \<Rightarrow>
                    (case dispatch h region False ch
                            (Some \<lparr>lock = None\<rparr>, m, calls1, None) of
                       (Panics, rs', m', calls', eg) \<Rightarrow> (Panics, calls')
                     | (Deadlocks, rs', m', calls', eg) \<Rightarrow> (Deadlocks, calls')
                     | (Returns _, rs', m', calls', Some e) \<Rightarrow> (Returns (Inl e), calls')
                     | (Returns _, rs', m', calls', None) \<Rightarrow>
                         (Returns (Inr \<lparr>Region = region, ConnectedRealms = m',
                                          AllRealms = ar\<rparr>), calls')))))"

section \<open>The test fixture\<close>

text \<open>
  The mock of \<open>bnet_test.go\<close> and of the second test file: five realms, two clusters,
  the members of each cluster, and the connected realm of each of the realms 2, 4
  and 5. The mock panics on any other endpoint; here it answers with an error.
\<close>

definition fixture_realms :: "realm_entry list" where
  "fixture_realms =
     [\<lparr>ID = 1, Slug = ''realm1-main''\<rparr>, \<lparr>ID = 2, Slug = ''realm2''\<rparr>,
      \<lparr>ID = 3, Slug = ''realm3-main''\<rparr>, \<lparr>ID = 4, Slug = ''realm4''\<rparr>,
      \<lparr>ID = 5, Slug = ''realm5''\<rparr>]"

definition fixture_hrefs :: "string list" where
  "fixture_hrefs =
     [''https://unittest.com/data/wow/connected-realm/1?namespace=dynamic-us'',
      ''https://unittest.com/data/wow/connected-realm/3?namespace=dynamic-us'']"

definition cluster1 :: "realm_entry list" where
  "cluster1 = [\<lparr>ID = 1, Slug = ''realm1-main''\<rparr>, \<lparr>ID = 2, Slug = ''realm2''\<rparr>,
               \<lparr>ID = 5, Slug = ''realm5''\<rparr>]"

definition cluster3 :: "realm_entry list" where
  "cluster3 = [\<lparr>ID = 3, Slug = ''realm3-main''\<rparr>, \<lparr>ID = 4, Slug = ''realm4''\<rparr>]"


text \<open>The mock with the two cluster responses as parameters.\<close>

definition mockHTTP :: "realm_entry list \<Rightarrow> realm_entry list \<Rightarrow> HTTP" where
  "mockHTTP c1 c3 region endpoint =
     (if endpoint = ''data/wow/realm/index?locale=en_US&namespace=dynamic-us''
      then Inr (Document (empty_doc\<lparr>realms := fixture_realms\<rparr>))
      else if endpoint = ''data/wow/connected-realm/index?locale=en_US&namespace=dynamic-us''
      then Inr (Document (empty_doc\<lparr>connected_realms := fixture_hrefs\<rparr>))
      else if endpoint = ''/data/wow/connected-realm/1?namespace=dynamic-us&locale=en_US''
      then Inr (Document (empty_doc\<lparr>realms := c1\<rparr>))
      else if endpoint = ''/data/wow/connected-realm/3?namespace=dynamic-us&locale=en_US''
      then Inr (Document (empty_doc\<lparr>realms := c3\<rparr>))
      else if endpoint = ''data/wow/realm/realm2?namespace=dynamic-us&locale=en_US''
      then Inr (Document (empty_doc\<lparr>connected_realm :=
             ''https://unittest.com/data/wow/connected-realm/1?namespace=dynamic-us''\<rparr>))
      else if endpoint = ''data/wow/realm/realm4?namespace=dynamic-us&locale=en_US''
      then Inr (Document (empty_doc\<lparr>connected_realm :=
             ''https://unittest.com/data/wow/connected-realm/3?namespace=dynamic-us''\<rparr>))
      else if endpoint = ''data/wow/realm/realm5?namespace=dynamic-us&locale=en_US''
      then Inr (Document (empty_doc\<lparr>connected_realm :=
             ''https://unittest.com/data/wow/connected-realm/1?namespace=dynamic-us''\<rparr>))
      else Inl (Transport ''unexpected endpoint''))"

definition fixture :: HTTP where
  "fixture = mockHTTP cluster1 cluster3"

text \<open>
  A transport for \<open>ConnectedRealmID\<close> of \<open>bnet.go\<close>: every search finds the one
  realm \<open>realm2\<close>, in the connected realm 1.
\<close>

definition searchMock :: HTTP where
  "searchMock region endpoint =
     Inr (Document (empty_doc\<lparr>page_size := 1, results := [\<lparr>ID = 1, Slug = ''realm2''\<rparr>]\<rparr>))"



text \<open>
  A transport that serves the two indexes of the fixture for any region, and nothing
  else.
\<close>

definition indexMock :: HTTP where
  "indexMock region endpoint =
     (if endpoint = realm_index_endpoint region
      then Inr (Document (empty_doc\<lparr>realms := fixture_realms\<rparr>))
      else if endpoint = connected_realm_index_endpoint region
      then Inr (Document (empty_doc\<lparr>connected_realms := fixture_hrefs\<rparr>))
      else Inl (Transport ''unexpected endpoint''))"

section \<open>Properties of the normaliser and the region check\<close>

lemma lower_char_idem: "lower_char (lower_char c) = lower_char c"
  by (simp add: lower_char_def)

lemma lower_char_marks:
  "lower_char c = CHR ''-'' \<longleftrightarrow> c = CHR ''-''"
  "lower_char c = CHR 0x27 \<longleftrightarrow> c = CHR 0x27"
  "lower_char c = CHR '' '' \<longleftrightarrow> c = CHR '' ''"
  "CHR ''-'' = lower_char c \<longleftrightarrow> c = CHR ''-''"
  "CHR 0x27 = lower_char c \<longleftrightarrow> c = CHR 0x27"
  "CHR '' '' = lower_char c \<longleftrightarrow> c = CHR '' ''"
  by (auto simp: lower_char_def split: if_splits)


text \<open>A second pass removes the hyphens the first pass wrote for the spaces.\<close>

lemma RealmSlug_twice:
  "RealmSlug (RealmSlug x) = filter (\<lambda>c. c \<noteq> CHR ''-'') (RealmSlug x)"
  by (induction x)
     (simp_all add: RealmSlug_def ToLower_def Replace_def removeMn_def lower_char_marks
        lower_char_idem)




text \<open>
  C7: \<open>IsValidRegion\<close> is true for \<open>us\<close> and \<open>eu\<close> and false for every other string of
  two or more characters. The code tests the position of the argument inside \<open>useu\<close>,
  so it also accepts the three-letter string \<open>use\<close> (position 0), and \<open>useu\<close> itself.
\<close>

theorem IsValidRegion_accepts_use:
  "IsValidRegion ''us'' \<and> IsValidRegion ''eu'' \<and> IsValidRegion ''use'' \<and> ''use'' \<noteq> ''us''
   \<and> ''use'' \<noteq> ''eu'' \<and> 2 \<le> length ''use''"
  by (simp add: IsValidRegion_def Index_def)

section \<open>The builds on the fixture\<close>

lemma fixture_indexes:
  "fetch_indexes (mockHTTP c1 c3) ''us'' [] =
     (Inr (fixture_realms, fixture_hrefs),
      [realm_index_endpoint ''us'', connected_realm_index_endpoint ''us''])"
  by (simp add: fetch_indexes_def Get_def mockHTTP_def Unmarshal_def empty_doc_def
        realm_index_endpoint_def connected_realm_index_endpoint_def)

lemma fixture_ids: "extract_ids fixture_hrefs = Inr [1, 3]"
  by (simp add: fixture_hrefs_def Atoi_def is_digit_def digit_val_def)

lemma endpoint_1:
  "connected_realm_endpoint 1 ''us'' =
     ''/data/wow/connected-realm/1?namespace=dynamic-us&locale=en_US''"
  by (simp add: connected_realm_endpoint_def Itoa_def digit_char_def)

lemma endpoint_3:
  "connected_realm_endpoint 3 ''us'' =
     ''/data/wow/connected-realm/3?namespace=dynamic-us&locale=en_US''"
  by (simp add: connected_realm_endpoint_def Itoa_def digit_char_def)

lemma mock_cluster_1:
  "Get (mockHTTP c1 c3) ''us'' (connected_realm_endpoint 1 ''us'') calls =
     (Inr (Document (empty_doc\<lparr>realms := c1\<rparr>)), calls @ [connected_realm_endpoint 1 ''us''])"
  by (simp add: Get_def endpoint_1 mockHTTP_def)

lemma mock_cluster_3:
  "Get (mockHTTP c1 c3) ''us'' (connected_realm_endpoint 3 ''us'') calls =
     (Inr (Document (empty_doc\<lparr>realms := c3\<rparr>)), calls @ [connected_realm_endpoint 3 ''us''])"
  by (simp add: Get_def endpoint_3 mockHTTP_def)

lemmas eager_eval =
  GetRealmList_eager_def fixture_indexes fixture_ids threads_def eval_nat_numeral worker_def
  scrapeConnRealm_def mock_cluster_1 mock_cluster_3 Unmarshal_def empty_doc_def
  merge_step_def count_of_def check_step_def fixture_realms_def Let_def

text \<open>
  C1, as stated, gives the result of the fixture for every version of
  \<open>GetRealmList\<close>. The version of \<open>bnet.go\<close> enters only the realms whose ID is in the
  connected-realm index, and leaves the others to \<open>ConnectedRealmID\<close>: its result
  has no entry for \<open>realm2\<close>.
\<close>

theorem GetRealmList_bnet_fixture_roots_only:
  "fst (GetRealmList_bnet fixture ''us'' []) =
     Inr \<lparr>Region = [],
          ConnectedRealms = [''realm1-main'' \<mapsto> 1, ''realm3-main'' \<mapsto> 3],
          AllRealms =
            [''realm1-main'' \<mapsto> 1, ''realm2'' \<mapsto> 2, ''realm3-main'' \<mapsto> 3, ''realm4'' \<mapsto> 4,
             ''realm5'' \<mapsto> 5]\<rparr>
   \<and> [''realm1-main'' \<mapsto> 1, ''realm3-main'' \<mapsto> (3::int)] ''realm2'' = None"
  by (simp add: GetRealmList_bnet_def fixture_def fixture_indexes fixture_ids
        fixture_realms_def index_step_bnet_def)

text \<open>
  C1, amended: on the fixture the eager version returns the region \<open>us\<close>, the members
  of the clusters 1 and 3, every slug with its own realm ID in \<open>AllRealms\<close>, and the
  cluster membership \<open>realm1-main\<close>, \<open>realm2\<close>, \<open>realm5\<close> in 1 and \<open>realm3-main\<close>,
  \<open>realm4\<close> in 3; the version of \<open>bnet.go\<close> returns the same \<open>AllRealms\<close> and a
  membership that holds the two realms of the index, \<open>realm1-main\<close> in 1 and
  \<open>realm3-main\<close> in 3.
\<close>

theorem GetRealmList_fixture:
  "fst (GetRealmList_eager fixture ''us'' []) =
     Inr \<lparr>Region_eager = ''us'',
          ConnectedRealms_eager =
            [1 \<mapsto> [''realm1-main'', ''realm2'', ''realm5''], 3 \<mapsto> [''realm3-main'', ''realm4'']],
          AllRealms_eager =
            [''realm1-main'' \<mapsto> 1, ''realm2'' \<mapsto> 2, ''realm3-main'' \<mapsto> 3, ''realm4'' \<mapsto> 4,
             ''realm5'' \<mapsto> 5],
          crRealm_eager =
            [''realm1-main'' \<mapsto> 1, ''realm2'' \<mapsto> 1, ''realm5'' \<mapsto> 1, ''realm3-main'' \<mapsto> 3,
             ''realm4'' \<mapsto> 3]\<rparr>
   \<and> fst (GetRealmList_bnet fixture ''us'' []) =
     Inr \<lparr>Region = [],
          ConnectedRealms = [''realm1-main'' \<mapsto> 1, ''realm3-main'' \<mapsto> 3],
          AllRealms =
            [''realm1-main'' \<mapsto> 1, ''realm2'' \<mapsto> 2, ''realm3-main'' \<mapsto> 3, ''realm4'' \<mapsto> 4,
             ''realm5'' \<mapsto> 5]\<rparr>"
proof
  show "fst (GetRealmList_eager fixture ''us'' []) =
     Inr \<lparr>Region_eager = ''us'',
          ConnectedRealms_eager =
            [1 \<mapsto> [''realm1-main'', ''realm2'', ''realm5''], 3 \<mapsto> [''realm3-main'', ''realm4'']],
          AllRealms_eager =
            [''realm1-main'' \<mapsto> 1, ''realm2'' \<mapsto> 2, ''realm3-main'' \<mapsto> 3, ''realm4'' \<mapsto> 4,
             ''realm5'' \<mapsto> 5],
          crRealm_eager =
            [''realm1-main'' \<mapsto> 1, ''realm2'' \<mapsto> 1, ''realm5'' \<mapsto> 1, ''realm3-main'' \<mapsto> 3,
             ''realm4'' \<mapsto> 3]\<rparr>"
    by (simp add: eager_eval fixture_def cluster1_def cluster3_def)
next
  show "fst (GetRealmList_bnet fixture ''us'' []) =
     Inr \<lparr>Region = [],
          ConnectedRealms = [''realm1-main'' \<mapsto> 1, ''realm3-main'' \<mapsto> 3],
          AllRealms =
            [''realm1-main'' \<mapsto> 1, ''realm2'' \<mapsto> 2, ''realm3-main'' \<mapsto> 3, ''realm4'' \<mapsto> 4,
             ''realm5'' \<mapsto> 5]\<rparr>"
    by (simp add: GetRealmList_bnet_def fixture_def fixture_indexes fixture_ids
          fixture_realms_def index_step_bnet_def)
qed

section \<open>Lookups of one realm\<close>

text \<open>All versions of the lookup test the region before anything else.\<close>

lemma invalid_region_guard:
  assumes "\<not> IsValidRegion region"
  shows "ConnectedRealmID_bnet h realmSlug region (c, calls) = (Returns (Inl InvalidRegion), c, calls)"
    and "connRealmID h realmSlug region (r, c, calls) = (Returns (Inl InvalidRegion), r, c, calls)"
    and "ConnectedRealmID_lazy h realmSlug region (c, calls) = (Returns (Inl InvalidRegion), c, calls)"
  using assms by (simp_all add: ConnectedRealmID_bnet_def connRealmID_def ConnectedRealmID_lazy_def)

lemma sanitize_Realm2: "ToLower (TrimSpace ''Realm2'') = ''realm2''"
  by (simp add: ToLower_def TrimSpace_def is_space_def lower_char_def)

lemma sanitize_realm2: "ToLower (TrimSpace ''realm2'') = ''realm2''"
  by (simp add: ToLower_def TrimSpace_def is_space_def lower_char_def)

lemma valid_us: "IsValidRegion ''us''"
  by (simp add: IsValidRegion_def Index_def)

lemma valid_use: "IsValidRegion ''use''"
  by (simp add: IsValidRegion_def Index_def)

text \<open>
  C6: after a fallback resolution succeeds the mapping is in the collection, a second
  call with the same argument is answered from the cache, and a mapping is never
  changed once written. In \<open>bnet.go\<close> the lookup reads \<open>c[r]\<close>, with \<open>r\<close> the
  sanitized slug, and the write is \<open>c[realmSlug] = id\<close>, with the argument as it came.
  For the argument \<open>Realm2\<close> the first call stores the entry under \<open>Realm2\<close>; the
  second call looks for \<open>realm2\<close>, misses and sends the request again; and an entry
  already stored under \<open>Realm2\<close> is overwritten.
\<close>

theorem ConnectedRealmID_bnet_cache_miss_again:
  "ConnectedRealmID_bnet searchMock ''Realm2'' ''us'' (Map.empty, []) =
     (Returns (Inr 1), [''Realm2'' \<mapsto> 1], [search_endpoint ''us'' ''realm2''])
   \<and> ConnectedRealmID_bnet searchMock ''Realm2'' ''us''
         ([''Realm2'' \<mapsto> 1], [search_endpoint ''us'' ''realm2'']) =
     (Returns (Inr 1), [''Realm2'' \<mapsto> 1],
      [search_endpoint ''us'' ''realm2'', search_endpoint ''us'' ''realm2''])
   \<and> ConnectedRealmID_bnet searchMock ''Realm2'' ''us'' ([''Realm2'' \<mapsto> 9], []) =
     (Returns (Inr 1), [''Realm2'' \<mapsto> 1], [search_endpoint ''us'' ''realm2''])"
  by (simp add: ConnectedRealmID_bnet_def valid_us sanitize_Realm2 Get_def searchMock_def
        Unmarshal_def empty_doc_def cache_result_def Let_def)

text \<open>
  When the argument is an ASCII string that is already sanitized the two keys are the
  same: the entry is stored under it, the next call is answered from the collection
  without a request, and no entry of the collection is changed.
\<close>

lemma ConnectedRealmID_bnet_cached:
  assumes v: "IsValidRegion region"
      and a: "is_ascii realmSlug"
      and k: "ToLower (TrimSpace realmSlug) = realmSlug"
      and r: "ConnectedRealmID_bnet h realmSlug region (c, calls) = (Returns (Inr i), c', calls')"
  shows "c' realmSlug = Some i"
    and "ConnectedRealmID_bnet h realmSlug region (c', calls') = (Returns (Inr i), c', calls')"
    and "c k' = Some j \<Longrightarrow> c' k' = Some j"
proof -
  have *: "c' realmSlug = Some i \<and> (\<forall>k' j. c k' = Some j \<longrightarrow> c' k' = Some j)"
    using r v k
    by (auto simp: ConnectedRealmID_bnet_def Let_def Get_def cache_result_def
          split: option.splits sum.splits if_splits)
  then show "c' realmSlug = Some i" by simp
  then show "ConnectedRealmID_bnet h realmSlug region (c', calls') = (Returns (Inr i), c', calls')"
    using v k by (simp add: ConnectedRealmID_bnet_def Let_def)
  show "c k' = Some j \<Longrightarrow> c' k' = Some j" using * by blast
qed

text \<open>
  C8: a lookup with a region outside the supported set (\<open>us\<close> and \<open>eu\<close>) returns the
  error "invalid region" before any request and before the map is read or written.
  The guard is \<open>IsValidRegion\<close>, which accepts \<open>use\<close>: with that region the lookup
  goes on to the transport and writes the map.
\<close>

theorem ConnectedRealmID_bnet_region_use:
  "ConnectedRealmID_bnet searchMock ''realm2'' ''use'' (Map.empty, []) =
     (Returns (Inr 1), [''realm2'' \<mapsto> 1], [search_endpoint ''use'' ''realm2''])"
  by (simp add: ConnectedRealmID_bnet_def valid_use sanitize_realm2 Get_def searchMock_def
        Unmarshal_def empty_doc_def cache_result_def Let_def)

section \<open>The concurrent lazy build never returns a directory\<close>

lemma dispatch_open: "fst (dispatch h region False ch st) \<noteq> Returns u"
  by (induction h region "False" ch st rule: dispatch.induct)
     (auto split: prod.splits outcome.splits sum.splits)

lemma connRealmID_nil_lock:
  "r = None \<or> r = Some \<lparr>lock = None\<rparr> \<Longrightarrow>
   connRealmID h slug region (r, c, calls) =
     (if IsValidRegion region then (Panics, r, c, calls)
      else (Returns (Inl InvalidRegion), r, c, calls))"
  by (auto simp: connRealmID_def RLock_def)


lemma GetRealmList_lazy_no_directory:
  "fst (GetRealmList_lazy h region calls0) \<noteq> Returns (Inr rs)"
proof -
  have "\<And>ch st a b. dispatch h region False ch st \<noteq> (Returns a, b)"
    using dispatch_open by (metis fst_conv)
  then show ?thesis
    by (auto simp: GetRealmList_lazy_def
          split: prod.splits sum.splits outcome.splits option.splits)
qed

lemma GetRealmList_lazy_stuck:
  assumes "fetch_indexes h region calls0 = (Inr (rlr, crr), calls1)"
      and "extract_ids crr = Inr ids"
  shows "fst (GetRealmList_lazy h region calls0) = Panics
         \<or> fst (GetRealmList_lazy h region calls0) = Deadlocks"
proof -
  have "\<And>ch st a b. dispatch h region False ch st \<noteq> (Returns a, b)"
    using dispatch_open by (metis fst_conv)
  then show ?thesis using assms
    by (auto simp: GetRealmList_lazy_def
          split: prod.splits sum.splits outcome.splits option.splits)
qed

lemma invalid_xx: "\<not> IsValidRegion ''xx''"
  by (simp add: IsValidRegion_def Index_def)

lemma index_xx:
  "fetch_indexes indexMock ''xx'' [] =
     (Inr (fixture_realms, fixture_hrefs),
      [realm_index_endpoint ''xx'', connected_realm_index_endpoint ''xx''])"
  by (simp add: fetch_indexes_def Get_def indexMock_def Unmarshal_def empty_doc_def
        realm_index_endpoint_def connected_realm_index_endpoint_def)

text \<open>
  C10, as stated, says that any worker goroutine that runs dereferences the nil lock.
  \<open>connRealmID\<close> tests the region before its first lock operation: in a build with a
  region \<open>IsValidRegion\<close> rejects, on a transport that serves the indexes for it, the
  workers return the error "invalid region", no goroutine panics, and the caller
  blocks on the channel.
\<close>

theorem GetRealmList_lazy_invalid_region_workers_return:
  "GetRealmList_lazy indexMock ''xx'' [] =
     (Deadlocks, [realm_index_endpoint ''xx'', connected_realm_index_endpoint ''xx''])
   \<and> connRealmID indexMock ''realm2'' ''xx''
        (Some \<lparr>lock = None\<rparr>, [''realm1-main'' \<mapsto> 1, ''realm3-main'' \<mapsto> 3],
         [realm_index_endpoint ''xx'', connected_realm_index_endpoint ''xx'']) =
     (Returns (Inl InvalidRegion), Some \<lparr>lock = None\<rparr>,
      [''realm1-main'' \<mapsto> 1, ''realm3-main'' \<mapsto> 3],
      [realm_index_endpoint ''xx'', connected_realm_index_endpoint ''xx''])"
  by (simp add: GetRealmList_lazy_def index_xx fixture_ids fixture_realms_def
        index_step_lazy_def connRealmID_nil_lock invalid_xx)

text \<open>
  C10, amended: in the concurrent lazy version \<open>GetRealmList\<close> never returns a
  directory; when both index fetches and decodes succeed and the cluster IDs are read,
  it does not return at all (the process panics or the caller blocks for ever); the
  loop over the channel, which is never closed, never ends; a worker that runs with a
  region \<open>IsValidRegion\<close> accepts panics on the nil lock of the scanner; and the
  exported \<open>ConnectedRealmID\<close>, whose package-level scanner is nil, panics for every
  such region.
\<close>

theorem GetRealmList_lazy_never_succeeds:
  "fst (GetRealmList_lazy h region calls0) \<noteq> Returns (Inr rs)
   \<and> (fetch_indexes h region calls0 = (Inr (rlr, crr), calls1) \<longrightarrow> extract_ids crr = Inr ids \<longrightarrow>
        fst (GetRealmList_lazy h region calls0) = Panics
        \<or> fst (GetRealmList_lazy h region calls0) = Deadlocks)
   \<and> fst (dispatch h region False ch st) \<noteq> Returns ()
   \<and> (IsValidRegion region \<longrightarrow>
        fst (connRealmID h slug region (Some \<lparr>lock = None\<rparr>, c, calls)) = Panics
        \<and> r_scanner = None
        \<and> fst (ConnectedRealmID_lazy h slug region (c, calls)) = Panics)"
  using GetRealmList_lazy_no_directory [of h region calls0 rs]
    GetRealmList_lazy_stuck [of h region calls0 rlr crr calls1 ids]
    dispatch_open [of h region ch st "()"]
  by (auto simp: connRealmID_nil_lock ConnectedRealmID_lazy_def r_scanner_def)

theorem GetRealmList_lazy_never_succeeds_witness:
  "fetch_indexes fixture ''us'' [] =
     (Inr (fixture_realms, fixture_hrefs),
      [realm_index_endpoint ''us'', connected_realm_index_endpoint ''us''])
   \<and> extract_ids fixture_hrefs = Inr [1, 3]
   \<and> IsValidRegion ''us''
   \<and> (fst (GetRealmList_lazy fixture ''us'' []) = Panics
        \<or> fst (GetRealmList_lazy fixture ''us'' []) = Deadlocks)
   \<and> fst (connRealmID fixture ''realm2'' ''us'' (Some \<lparr>lock = None\<rparr>, Map.empty, [])) = Panics
   \<and> fst (ConnectedRealmID_lazy fixture ''realm2'' ''us'' (Map.empty, [])) = Panics"
proof -
  have a: "fetch_indexes fixture ''us'' [] =
     (Inr (fixture_realms, fixture_hrefs),
      [realm_index_endpoint ''us'', connected_realm_index_endpoint ''us''])"
    by (simp add: fixture_def fixture_indexes)
  show ?thesis
    using GetRealmList_lazy_never_succeeds
      [of fixture "''us''" "[]"
        "\<lparr>Region = ''us'', ConnectedRealms = Map.empty, AllRealms = Map.empty\<rparr>"
        fixture_realms fixture_hrefs
        "[realm_index_endpoint ''us'', connected_realm_index_endpoint ''us'']" "[1, 3]"
        "[]" "(None, Map.empty, [], None)" "''realm2''" Map.empty "[]"]
      a fixture_ids valid_us
    by simp
qed

section \<open>The workers of the eager build\<close>
















section \<open>Errors of the transport during a build\<close>










section \<open>The completeness check of the eager build\<close>









section \<open>The connected-realm index\<close>




section \<open>A failed fetch fails the build\<close>



end
